theory Spec2Isabelle
  imports Main "HOL-Library.Word" "HOL-Library.Multiset"
begin

section \<open>LiteMark: the bookmark, category-order and settings store\<close>

text \<open>
  A shallow embedding of \<^verbatim>\<open>api/vercel/_lib/db.ts\<close> (the data-access layer over three
  Postgres tables) and of the GET branch of \<^verbatim>\<open>api/vercel/bookmarks/index.ts\<close>.

  Every exported function of \<^verbatim>\<open>db.ts\<close> is a sequence of SQL statements with JavaScript
  in between. The model passes the contents of the tables explicitly: a function takes the
  store and returns its result together with the store it leaves behind. Statements run
  one after the other, without a transaction, exactly in the order of the source.

  What the model fixes where SQL or the platform leave a choice:
  \<^item> a table is the list of its rows; \<^verbatim>\<open>INSERT\<close> appends, \<^verbatim>\<open>UPDATE\<close> changes rows in place,
    \<^verbatim>\<open>DELETE\<close> removes them, and a \<^verbatim>\<open>SELECT\<close> without \<^verbatim>\<open>ORDER BY\<close> enumerates the list;
    \<^verbatim>\<open>ORDER BY\<close> is a stable sort of that list;
  \<^item> a JavaScript string is the list of its UTF-16 code units, so \<^verbatim>\<open>.length\<close> is the
    length of the list;
  \<^item> \<^verbatim>\<open>number\<close> values of the \<^verbatim>\<open>order\<close> column are integers; the range of the column type
    (\<^verbatim>\<open>INTEGER\<close>), the length limits of the \<^verbatim>\<open>VARCHAR\<close> columns and failures of the
    connection are outside the model. The one database error that is modelled is the
    primary-key violation of an \<^verbatim>\<open>INSERT\<close>;
  \<^item> \<^verbatim>\<open>ensureTables\<close> creates the three tables when they do not exist yet; the store of
    the model always has them (empty at first), so it is the identity on the store;
  \<^item> the columns \<^verbatim>\<open>created_at\<close> and \<^verbatim>\<open>updated_at\<close> are written and never read; they are
    left out.
\<close>

subsection \<open>JavaScript values\<close>

type_synonym js_string = "16 word list"

text \<open>A string literal of the source, given by its (ASCII) characters.\<close>

definition js :: "string \<Rightarrow> js_string" where
  "js s = map of_char s"

text \<open>A property declared \<^verbatim>\<open>p?: T | null\<close>: absent, \<^verbatim>\<open>null\<close>, or a value.\<close>

datatype 'a js_opt = Undefined | Null | Val 'a

text \<open>
  \<^verbatim>\<open>String.prototype.trim\<close> strips the code units of ECMAScript's WhiteSpace and
  LineTerminator productions from both ends.
\<close>

definition isWhiteSpace :: "16 word \<Rightarrow> bool" where
  "isWhiteSpace c \<longleftrightarrow>
     c \<in> set [0x0009, 0x000A, 0x000B, 0x000C, 0x000D, 0x0020, 0x00A0, 0x1680,
              0x2000, 0x2001, 0x2002, 0x2003, 0x2004, 0x2005, 0x2006, 0x2007,
              0x2008, 0x2009, 0x200A, 0x2028, 0x2029, 0x202F, 0x205F, 0x3000, 0xFEFF]"

definition trim :: "js_string \<Rightarrow> js_string" where
  "trim s = rev (dropWhile isWhiteSpace (rev (dropWhile isWhiteSpace s)))"

text \<open>\<^verbatim>\<open>x ?? d\<close> on an optional property, and \<^verbatim>\<open>s || null\<close> on a string.\<close>

definition nullish :: "'a js_opt \<Rightarrow> 'a \<Rightarrow> 'a" where
  "nullish x d = (case x of Val v \<Rightarrow> v | _ \<Rightarrow> d)"

definition or_null :: "js_string \<Rightarrow> js_string option" where
  "or_null s = (if s = [] then None else Some s)"

text \<open>
  \<^verbatim>\<open>function normalizeCategory(category) { return (category ?? '').trim() || ''; }\<close>
\<close>

definition normalizeCategory :: "js_string js_opt \<Rightarrow> js_string" where
  "normalizeCategory category = (let t = trim (nullish category []) in if t = [] then [] else t)"

subsection \<open>The tables\<close>

text \<open>
  A row of \<^verbatim>\<open>bookmarks\<close>. \<^verbatim>\<open>id\<close> is the primary key, \<^verbatim>\<open>title\<close> and \<^verbatim>\<open>url\<close> are
  \<^verbatim>\<open>NOT NULL\<close>; the other columns may hold \<^verbatim>\<open>NULL\<close>, which is \<open>None\<close>.
\<close>

record bookmark_row =
  row_id :: js_string
  row_title :: js_string
  row_url :: js_string
  row_category :: "js_string option"
  row_description :: "js_string option"
  row_visible :: "bool option"
  row_order :: "int option"

text \<open>
  The store: the rows of \<^verbatim>\<open>bookmarks\<close>, the rows of \<^verbatim>\<open>category_order\<close> (category and
  order, both \<^verbatim>\<open>NOT NULL\<close>) and the table \<^verbatim>\<open>settings\<close>, a map from its primary key to the
  value.
\<close>

record store =
  bookmarks :: "bookmark_row list"
  category_order :: "(js_string \<times> int) list"
  settings :: "js_string \<rightharpoonup> js_string"

text \<open>The interface \<^verbatim>\<open>BookmarkRecord\<close> of the source.\<close>

record BookmarkRecord =
  bm_id :: js_string
  bm_title :: js_string
  bm_url :: js_string
  bm_category :: "js_string js_opt"
  bm_description :: "js_string js_opt"
  bm_visible :: "bool option"
  bm_order :: "int option"
  bm_categoryOrder :: "int option"

text \<open>\<^verbatim>\<open>Omit<BookmarkRecord, 'id' | 'order'>\<close>, the argument of \<^verbatim>\<open>createBookmark\<close>.\<close>

record new_bookmark =
  new_title :: js_string
  new_url :: js_string
  new_category :: "js_string js_opt"
  new_description :: "js_string js_opt"
  new_visible :: "bool option"
  new_categoryOrder :: "int option"

text \<open>\<^verbatim>\<open>Partial<Omit<BookmarkRecord, 'id'>>\<close>, the patch of \<^verbatim>\<open>updateBookmark\<close>.\<close>

record bookmark_patch =
  patch_title :: "js_string option"
  patch_url :: "js_string option"
  patch_category :: "js_string js_opt"
  patch_description :: "js_string js_opt"
  patch_visible :: "bool option"
  patch_order :: "int option"
  patch_categoryOrder :: "int option"

text \<open>The interface \<^verbatim>\<open>Settings\<close>; \<^verbatim>\<open>Partial<Settings>\<close> is the same type.\<close>

record Settings =
  theme :: "js_string option"
  siteTitle :: "js_string option"
  siteIcon :: "js_string option"

datatype error =
    DuplicateKey
  | InvalidTheme
  | SiteTitleTooLong
  | SiteIconTooLong

subsection \<open>SQL fragments\<close>

text \<open>
  A comparison with \<^verbatim>\<open>NULL\<close> on either side is not true in SQL, so a \<^verbatim>\<open>WHERE\<close> clause
  \<^verbatim>\<open>category = $1\<close> whose parameter is \<^verbatim>\<open>null\<close> selects no row, not even the rows whose
  category is \<^verbatim>\<open>NULL\<close>.
\<close>

definition sql_eq :: "'a option \<Rightarrow> 'a option \<Rightarrow> bool" where
  "sql_eq a b = (case (a, b) of (Some x, Some y) \<Rightarrow> x = y | _ \<Rightarrow> False)"

definition sql_gt :: "int option \<Rightarrow> int option \<Rightarrow> bool" where
  "sql_gt a b = (case (a, b) of (Some x, Some y) \<Rightarrow> x > y | _ \<Rightarrow> False)"

text \<open>\<^verbatim>\<open>SELECT * FROM bookmarks WHERE id = $1\<close>: at most one row, \<^verbatim>\<open>id\<close> being the key.\<close>

definition select_by_id :: "js_string \<Rightarrow> bookmark_row list \<Rightarrow> bookmark_row option" where
  "select_by_id i rows = find (\<lambda>r. row_id r = i) rows"

text \<open>
  \<^verbatim>\<open>SELECT COALESCE(MAX("order"), -1) as max_order FROM bookmarks WHERE category = $1\<close>.
  \<^verbatim>\<open>MAX\<close> skips \<^verbatim>\<open>NULL\<close> orders and is \<^verbatim>\<open>NULL\<close> when nothing is left.
\<close>

definition max_order :: "js_string option \<Rightarrow> bookmark_row list \<Rightarrow> int" where
  "max_order cat rows =
     (case List.map_filter row_order (filter (\<lambda>r. sql_eq (row_category r) cat) rows) of
        [] \<Rightarrow> - 1
      | k # ks \<Rightarrow> fold max ks k)"

text \<open>
  \<^verbatim>\<open>UPDATE bookmarks SET "order" = "order" - 1 WHERE category = $1 AND "order" > $2\<close>
\<close>

definition shift_down :: "js_string option \<Rightarrow> int option \<Rightarrow> bookmark_row list \<Rightarrow> bookmark_row list" where
  "shift_down cat ord rows =
     map (\<lambda>r. if sql_eq (row_category r) cat \<and> sql_gt (row_order r) ord
              then r\<lparr>row_order := map_option (\<lambda>k. k - 1) (row_order r)\<rparr> else r) rows"

text \<open>\<^verbatim>\<open>UPDATE bookmarks SET "order" = $1 WHERE id = $2\<close>\<close>

definition set_order :: "js_string \<Rightarrow> int \<Rightarrow> bookmark_row list \<Rightarrow> bookmark_row list" where
  "set_order i k rows = map (\<lambda>r. if row_id r = i then r\<lparr>row_order := Some k\<rparr> else r) rows"

text \<open>
  A stable sort by a comparator (negative: first argument first), the contract of
  \<^verbatim>\<open>Array.prototype.sort\<close>; it also serves for \<^verbatim>\<open>ORDER BY\<close>.
\<close>

fun insort_cmp :: "('a \<Rightarrow> 'a \<Rightarrow> int) \<Rightarrow> 'a \<Rightarrow> 'a list \<Rightarrow> 'a list" where
  "insort_cmp cmp x [] = [x]"
| "insort_cmp cmp x (y # ys) = (if cmp x y \<le> 0 then x # y # ys else y # insort_cmp cmp x ys)"

definition sort_cmp :: "('a \<Rightarrow> 'a \<Rightarrow> int) \<Rightarrow> 'a list \<Rightarrow> 'a list" where
  "sort_cmp cmp xs = foldr (insort_cmp cmp) xs []"

text \<open>\<^verbatim>\<open>ORDER BY "order" ASC\<close> on a nullable column: \<^verbatim>\<open>NULL\<close> sorts last.\<close>

fun nulls_last :: "int option \<Rightarrow> int option \<Rightarrow> int" where
  "nulls_last (Some x) (Some y) = x - y"
| "nulls_last (Some x) None = - 1"
| "nulls_last None (Some y) = 1"
| "nulls_last None None = 0"

text \<open>\<^verbatim>\<open>Array.prototype.indexOf\<close>: the first index of the element, \<open>-1\<close> when absent.\<close>

fun indexOf :: "'a list \<Rightarrow> 'a \<Rightarrow> int" where
  "indexOf [] x = - 1"
| "indexOf (y # ys) x =
     (if y = x then 0 else (let i = indexOf ys x in if i = - 1 then - 1 else i + 1))"

subsection \<open>listBookmarks\<close>

text \<open>
  A selected column arrives as \<^verbatim>\<open>null\<close> or as its value (\<open>js_of_sql\<close>). The object built
  from a selected row (the same expressions in \<^verbatim>\<open>listBookmarks\<close>,
  \<^verbatim>\<open>updateBookmark\<close> and \<^verbatim>\<open>deleteBookmark\<close>): an empty or \<^verbatim>\<open>NULL\<close> category and description
  become \<^verbatim>\<open>null\<close>, \<^verbatim>\<open>visible\<close> is \<^verbatim>\<open>row.visible !== false\<close>, \<^verbatim>\<open>order\<close> is \<^verbatim>\<open>row.order || 0\<close>.
\<close>

definition js_of_sql :: "'a option \<Rightarrow> 'a js_opt" where
  "js_of_sql c = (case c of None \<Rightarrow> Null | Some v \<Rightarrow> Val v)"

definition string_or_null :: "js_string option \<Rightarrow> js_string js_opt" where
  "string_or_null c = (case c of None \<Rightarrow> Null | Some s \<Rightarrow> if s = [] then Null else Val s)"

definition row_to_record :: "bookmark_row \<Rightarrow> BookmarkRecord" where
  "row_to_record r =
     \<lparr>bm_id = row_id r, bm_title = row_title r, bm_url = row_url r,
      bm_category = string_or_null (row_category r),
      bm_description = string_or_null (row_description r),
      bm_visible = Some (row_visible r \<noteq> Some False),
      bm_order = Some (case row_order r of None \<Rightarrow> 0 | Some k \<Rightarrow> k),
      bm_categoryOrder = None\<rparr>"

text \<open>The comparator of the \<^verbatim>\<open>sort\<close> call in \<^verbatim>\<open>listBookmarks\<close>.\<close>

definition order_or_zero :: "BookmarkRecord \<Rightarrow> int" where
  "order_or_zero a = (case bm_order a of None \<Rightarrow> 0 | Some k \<Rightarrow> k)"

definition compareBookmarks :: "js_string list \<Rightarrow> BookmarkRecord \<Rightarrow> BookmarkRecord \<Rightarrow> int" where
  "compareBookmarks categoryOrder a b =
     (let catA = normalizeCategory (bm_category a);
          catB = normalizeCategory (bm_category b);
          indexA = indexOf categoryOrder catA;
          indexB = indexOf categoryOrder catB
      in if indexA \<noteq> indexB
         then (if indexA = - 1 then 1 else if indexB = - 1 then - 1 else indexA - indexB)
         else order_or_zero a - order_or_zero b)"

text \<open>\<^verbatim>\<open>SELECT category FROM category_order ORDER BY "order" ASC\<close>, mapped to the categories.\<close>

definition select_category_order :: "store \<Rightarrow> js_string list" where
  "select_category_order s = map fst (sort_cmp (\<lambda>a b. snd a - snd b) (category_order s))"

definition listBookmarks :: "store \<Rightarrow> BookmarkRecord list" where
  "listBookmarks s =
     (let categoryOrder = select_category_order s;
          rows = sort_cmp (\<lambda>a b. nulls_last (row_order a) (row_order b)) (bookmarks s);
          bookmarks' = map row_to_record rows
      in sort_cmp (compareBookmarks categoryOrder) bookmarks')"



subsection \<open>createBookmark\<close>

text \<open>
  \<^verbatim>\<open>crypto.randomUUID()\<close> is the first argument: the function is run with the identifier
  the generator returned. The \<^verbatim>\<open>INSERT\<close> fails on an identifier that is already a key.
  The parameter of the \<^verbatim>\<open>MAX\<close> query and the stored category are both
  \<^verbatim>\<open>category || null\<close>.
\<close>

definition createBookmark ::
  "js_string \<Rightarrow> new_bookmark \<Rightarrow> store \<Rightarrow> error + (BookmarkRecord \<times> store)" where
  "createBookmark uuid data s =
     (let category = normalizeCategory (new_category data);
          maxOrder = max_order (or_null category) (bookmarks s);
          ord = maxOrder + 1;
          row = \<lparr>row_id = uuid, row_title = new_title data, row_url = new_url data,
                 row_category = or_null category,
                 row_description = or_null (nullish (new_description data) []),
                 row_visible = Some (case new_visible data of None \<Rightarrow> True | Some v \<Rightarrow> v),
                 row_order = Some ord\<rparr>
      in if uuid \<in> set (map row_id (bookmarks s)) then Inl DuplicateKey
         else Inr (\<lparr>bm_id = uuid, bm_title = new_title data, bm_url = new_url data,
                    bm_category = (if category = [] then Null else Val category),
                    bm_description = new_description data,
                    bm_visible = new_visible data,
                    bm_order = Some ord,
                    bm_categoryOrder = new_categoryOrder data\<rparr>,
                   s\<lparr>bookmarks := bookmarks s @ [row]\<rparr>))"

subsection \<open>updateBookmark\<close>

text \<open>
  The source compares \<^verbatim>\<open>normalizeCategory(data.category)\<close>, which is the empty string for
  a patch without a category, with the normalised category of the row; when they differ
  it closes the gap in the old category and writes \<^verbatim>\<open>data.order = maxOrder + 1\<close> into the
  patch. The final \<^verbatim>\<open>UPDATE\<close> then writes every column of the row.
\<close>

definition updateBookmark ::
  "js_string \<Rightarrow> bookmark_patch \<Rightarrow> store \<Rightarrow> BookmarkRecord option \<times> store" where
  "updateBookmark i data s =
     (case select_by_id i (bookmarks s) of
        None \<Rightarrow> (None, s)
      | Some current \<Rightarrow>
          (let oldCategory = normalizeCategory (js_of_sql (row_category current));
               newCategory = normalizeCategory (patch_category data);
               changed = (newCategory \<noteq> oldCategory);
               rows1 = (if changed
                        then shift_down (or_null oldCategory) (row_order current) (bookmarks s)
                        else bookmarks s);
               data_order = (if changed then Some (max_order (or_null newCategory) rows1 + 1)
                             else patch_order data);
               title = (case patch_title data of Some t \<Rightarrow> t | None \<Rightarrow> row_title current);
               url = (case patch_url data of Some u \<Rightarrow> u | None \<Rightarrow> row_url current);
               category = (case patch_category data of
                             Undefined \<Rightarrow> (case row_category current of
                                             None \<Rightarrow> None | Some c \<Rightarrow> or_null c)
                           | _ \<Rightarrow> or_null (normalizeCategory (patch_category data)));
               description = (case patch_description data of
                                Undefined \<Rightarrow> (case row_description current of
                                                None \<Rightarrow> None | Some d \<Rightarrow> or_null d)
                              | Null \<Rightarrow> None
                              | Val d \<Rightarrow> or_null d);
               visible = (case patch_visible data of
                            Some v \<Rightarrow> v | None \<Rightarrow> row_visible current \<noteq> Some False);
               ord = (case data_order of
                        Some k \<Rightarrow> k
                      | None \<Rightarrow> (case row_order current of None \<Rightarrow> 0 | Some k \<Rightarrow> k));
               rows2 = map (\<lambda>r. if row_id r = i
                                then r\<lparr>row_title := title, row_url := url,
                                       row_category := category,
                                       row_description := description,
                                       row_visible := Some visible,
                                       row_order := Some ord\<rparr>
                                else r) rows1
           in (map_option row_to_record (select_by_id i rows2), s\<lparr>bookmarks := rows2\<rparr>)))"

subsection \<open>deleteBookmark\<close>

definition deleteBookmark :: "js_string \<Rightarrow> store \<Rightarrow> BookmarkRecord option \<times> store" where
  "deleteBookmark i s =
     (case select_by_id i (bookmarks s) of
        None \<Rightarrow> (None, s)
      | Some deleted \<Rightarrow>
          (let category = normalizeCategory (js_of_sql (row_category deleted));
               ord = row_order deleted;
               rows1 = shift_down (or_null category) ord (bookmarks s);
               rows2 = filter (\<lambda>r. row_id r \<noteq> i) rows1
           in (Some (row_to_record deleted), s\<lparr>bookmarks := rows2\<rparr>)))"

subsection \<open>reorderBookmarks\<close>

text \<open>
  Both loops of the source give consecutive numbers to a list of identifiers, one
  \<^verbatim>\<open>UPDATE\<close> each: the first to \<^verbatim>\<open>order\<close> from 0, the second to the identifiers of the table
  that \<^verbatim>\<open>order\<close> does not include, from \<^verbatim>\<open>order.length\<close>.
\<close>

fun assign_orders :: "js_string list \<Rightarrow> int \<Rightarrow> bookmark_row list \<Rightarrow> bookmark_row list" where
  "assign_orders [] k rows = rows"
| "assign_orders (i # is) k rows = assign_orders is (k + 1) (set_order i k rows)"

definition reorderBookmarks :: "js_string list \<Rightarrow> store \<Rightarrow> BookmarkRecord list \<times> store" where
  "reorderBookmarks ord s =
     (let rows1 = assign_orders ord 0 (bookmarks s);
          allIds = map row_id rows1;
          missingIds = filter (\<lambda>i. i \<notin> set ord) allIds;
          rows2 = assign_orders missingIds (int (length ord)) rows1;
          s' = s\<lparr>bookmarks := rows2\<rparr>
      in (listBookmarks s', s'))"

subsection \<open>Settings\<close>

definition validThemes :: "js_string list" where
  "validThemes = [js ''light'', js ''dark'', js ''forest'', js ''ocean'', js ''sunrise'', js ''twilight'']"

text \<open>
  The defaults of \<^verbatim>\<open>getSettings\<close>; the default title and icon are not ASCII and are given
  by their code units (four CJK characters; one emoji, a surrogate pair).
\<close>

definition defaultSiteTitle :: js_string where
  "defaultSiteTitle = [0x4E2A, 0x4EBA, 0x4E66, 0x7B7E]"

definition defaultSiteIcon :: js_string where
  "defaultSiteIcon = [0xD83D, 0xDD16]"

definition getSettings :: "store \<Rightarrow> Settings" where
  "getSettings s =
     \<lparr>theme = Some (case settings s (js ''theme'') of None \<Rightarrow> js ''light'' | Some v \<Rightarrow> v),
      siteTitle = Some (case settings s (js ''siteTitle'') of None \<Rightarrow> defaultSiteTitle | Some v \<Rightarrow> v),
      siteIcon = Some (case settings s (js ''siteIcon'') of None \<Rightarrow> defaultSiteIcon | Some v \<Rightarrow> v)\<rparr>"

text \<open>
  \<^verbatim>\<open>INSERT INTO settings ... ON CONFLICT (key) DO UPDATE SET value = ...\<close>
\<close>

definition upsert_setting :: "js_string \<Rightarrow> js_string \<Rightarrow> store \<Rightarrow> store" where
  "upsert_setting k v s = s\<lparr>settings := (settings s)(k \<mapsto> v)\<rparr>"

text \<open>
  The three validations test the field for truthiness (\<^verbatim>\<open>data.theme && ...\<close>): an absent
  field and the empty string both skip the test. The three upserts test
  \<^verbatim>\<open>!== undefined\<close>.
\<close>

definition truthy :: "js_string option \<Rightarrow> bool" where
  "truthy x = (case x of None \<Rightarrow> False | Some v \<Rightarrow> v \<noteq> [])"

definition updateSettings :: "Settings \<Rightarrow> store \<Rightarrow> error + (Settings \<times> store)" where
  "updateSettings data s =
     (if truthy (theme data) \<and> the (theme data) \<notin> set validThemes then Inl InvalidTheme
      else if truthy (siteTitle data) \<and> length (the (siteTitle data)) > 60 then Inl SiteTitleTooLong
      else if truthy (siteIcon data) \<and> length (the (siteIcon data)) > 512 then Inl SiteIconTooLong
      else
        (let s1 = (case theme data of None \<Rightarrow> s | Some v \<Rightarrow> upsert_setting (js ''theme'') v s);
             s2 = (case siteTitle data of None \<Rightarrow> s1 | Some v \<Rightarrow> upsert_setting (js ''siteTitle'') v s1);
             s3 = (case siteIcon data of None \<Rightarrow> s2 | Some v \<Rightarrow> upsert_setting (js ''siteIcon'') v s2)
         in Inr (getSettings s3, s3)))"

subsection \<open>The handler of /api/bookmarks\<close>

text \<open>
  The handler answers a preflight request, then a GET with \<^verbatim>\<open>action=parse\<close> (the title
  scraper), then GET, then POST, and anything else with 405. Only the GET branch is spelt
  out; the others are named.

  \<^verbatim>\<open>getAuthFromRequest\<close> is imported from \<^verbatim>\<open>_lib/auth.js\<close>, whose source does not define it,
  so its result is an argument of the model: \<open>None\<close> is the \<^verbatim>\<open>null\<close> it returns for a request
  without a valid bearer token, \<open>Some u\<close> the identity it returns for one with such a token.
\<close>

datatype http_method = GET | POST | OPTIONS | OtherMethod

record request =
  req_method :: http_method
  req_action :: "js_string option"

text \<open>
  Modelled from the spec: \<^verbatim>\<open>handleOptions\<close> of \<^verbatim>\<open>_lib/http.js\<close>, which is not among the
  sources. By the specification's "standard CORS preflight handling (OPTIONS -> 200)" it
  answers a request of method OPTIONS and tells the handler to stop, and does nothing for
  any other method.
\<close>

definition handleOptions :: "request \<Rightarrow> bool" where
  "handleOptions req \<longleftrightarrow> req_method req = OPTIONS"

datatype response =
    Preflight
  | ParseResult
  | Json nat "BookmarkRecord list"
  | PostBranch
  | ErrorResponse nat

definition handler :: "'u option \<Rightarrow> request \<Rightarrow> store \<Rightarrow> response" where
  "handler auth req s =
     (if handleOptions req then Preflight
      else if req_method req = GET \<and> req_action req = Some (js ''parse'') then ParseResult
      else if req_method req = GET then
        (let allBookmarks = listBookmarks s;
             visibleBookmarks = (if auth \<noteq> None then allBookmarks
                                 else filter (\<lambda>item. bm_visible item \<noteq> Some False) allBookmarks)
         in Json 200 visibleBookmarks)
      else if req_method req = POST then PostBranch
      else ErrorResponse 405)"

subsection \<open>Sequences of store operations\<close>

text \<open>
  A call of one of the three mutating bookmark operations, and the store a sequence of
  calls leaves behind. A \<^verbatim>\<open>createBookmark\<close> whose \<^verbatim>\<open>INSERT\<close> fails throws and leaves the
  store as it was.
\<close>

datatype store_op =
    Create js_string new_bookmark
  | Update js_string bookmark_patch
  | Delete js_string

fun apply_op :: "store_op \<Rightarrow> store \<Rightarrow> store" where
  "apply_op (Create uuid data) s = (case createBookmark uuid data s of Inl e \<Rightarrow> s | Inr (r, s') \<Rightarrow> s')"
| "apply_op (Update i data) s = snd (updateBookmark i data s)"
| "apply_op (Delete i) s = snd (deleteBookmark i s)"

definition run :: "store_op list \<Rightarrow> store \<Rightarrow> store" where
  "run ops s = fold apply_op ops s"

subsection \<open>What the specification says of reorderBookmarks\<close>


subsection \<open>The order invariant\<close>

text \<open>
  The category of a row as \<^verbatim>\<open>listBookmarks\<close>, \<^verbatim>\<open>updateBookmark\<close> and \<^verbatim>\<open>deleteBookmark\<close> see
  it (the empty string for a row without a category), the \<^verbatim>\<open>order\<close> values of the rows of
  a category, and the invariant of the specification: the orders of a category with
  \<open>n\<close> bookmarks are \<open>0, \<dots>, n - 1\<close>, each once.
\<close>

definition category_of :: "bookmark_row \<Rightarrow> js_string" where
  "category_of r = normalizeCategory (js_of_sql (row_category r))"

definition orders_in :: "js_string \<Rightarrow> bookmark_row list \<Rightarrow> int option list" where
  "orders_in c rows = map row_order (filter (\<lambda>r. category_of r = c) rows)"

definition zero_to :: "int option list \<Rightarrow> bool" where
  "zero_to os \<longleftrightarrow> mset os = mset (map (\<lambda>k. Some (int k)) [0..<length os])"


text \<open>
  What every write of \<^verbatim>\<open>db.ts\<close> establishes and the primary key guarantees: identifiers
  are distinct, and a stored category is \<^verbatim>\<open>NULL\<close> or a trimmed, non-empty string.
\<close>

definition normalised :: "bookmark_row \<Rightarrow> bool" where
  "normalised r \<longleftrightarrow>
     (case row_category r of None \<Rightarrow> True | Some c \<Rightarrow> c \<noteq> [] \<and> trim c = c)"





subsection \<open>Example stores and arguments\<close>

definition empty_store :: store where
  "empty_store = \<lparr>bookmarks = [], category_order = [], settings = Map.empty\<rparr>"

definition example_row :: "string \<Rightarrow> js_string option \<Rightarrow> int \<Rightarrow> bookmark_row" where
  "example_row i c k =
     \<lparr>row_id = js i, row_title = js i, row_url = js ''https://example.org'',
      row_category = c, row_description = None, row_visible = Some True, row_order = Some k\<rparr>"

definition no_patch :: bookmark_patch where
  "no_patch =
     \<lparr>patch_title = None, patch_url = None, patch_category = Undefined,
      patch_description = Undefined, patch_visible = None, patch_order = None,
      patch_categoryOrder = None\<rparr>"

definition example_new :: new_bookmark where
  "example_new =
     \<lparr>new_title = js ''t'', new_url = js ''https://example.org'',
      new_category = Undefined, new_description = Undefined, new_visible = None,
      new_categoryOrder = None\<rparr>"

definition work_new :: new_bookmark where
  "work_new = example_new\<lparr>new_category := Val (js ''work'')\<rparr>"

text \<open>One and two bookmarks without a category; three bookmarks in the category "work".\<close>

definition uncategorised_one :: store where
  "uncategorised_one = empty_store\<lparr>bookmarks := [example_row ''a'' None 0]\<rparr>"

definition uncategorised_two :: store where
  "uncategorised_two =
     empty_store\<lparr>bookmarks := [example_row ''a'' None 0, example_row ''b'' None 1]\<rparr>"

definition work_three :: store where
  "work_three = empty_store\<lparr>bookmarks :=
     [example_row ''a'' (Some (js ''work'')) 0, example_row ''b'' (Some (js ''work'')) 1,
      example_row ''c'' (Some (js ''work'')) 2]\<rparr>"

text \<open>
  Four bookmarks, two in "work", one hidden in "home", one without a category; the
  category-order table puts "home" before "work".
\<close>

definition mixed_store :: store where
  "mixed_store = empty_store\<lparr>
     bookmarks := [example_row ''a'' (Some (js ''work'')) 1,
                   (example_row ''b'' (Some (js ''home'')) 0)\<lparr>row_visible := Some False\<rparr>,
                   example_row ''c'' None 0,
                   example_row ''d'' (Some (js ''work'')) 0],
     category_order := [(js ''work'', 1), (js ''home'', 0)]\<rparr>"



section \<open>Properties\<close>

lemmas eval_defs =
  createBookmark_def updateBookmark_def deleteBookmark_def reorderBookmarks_def
  max_order_def shift_down_def set_order_def select_by_id_def normalizeCategory_def trim_def
  isWhiteSpace_def nullish_def or_null_def js_def sql_eq_def sql_gt_def List.map_filter_def
  row_to_record_def string_or_null_def js_of_sql_def empty_store_def example_row_def
  no_patch_def example_new_def uncategorised_one_def uncategorised_two_def work_three_def
  Let_def

subsection \<open>The example stores\<close>

text \<open>
  The example stores are what the functions themselves leave behind on the empty store,
  in the columns \<^verbatim>\<open>id\<close>, \<^verbatim>\<open>category\<close> and \<^verbatim>\<open>order\<close>.
\<close>

lemma uncategorised_one_reached:
  "map (\<lambda>r. (row_id r, row_category r, row_order r))
      (bookmarks (run [Create (js ''a'') example_new] empty_store))
   = map (\<lambda>r. (row_id r, row_category r, row_order r)) (bookmarks uncategorised_one)"
  by (simp add: run_def eval_defs)

lemma uncategorised_two_reached:
  "map (\<lambda>r. (row_id r, row_category r, row_order r))
      (bookmarks (snd (reorderBookmarks [js ''a'', js ''b'']
         (run [Create (js ''a'') example_new, Create (js ''b'') example_new] empty_store))))
   = map (\<lambda>r. (row_id r, row_category r, row_order r)) (bookmarks uncategorised_two)"
  by (simp add: run_def eval_defs)

lemma work_three_reached:
  "map (\<lambda>r. (row_id r, row_category r, row_order r))
      (bookmarks (run [Create (js ''a'') work_new, Create (js ''b'') work_new,
                       Create (js ''c'') work_new] empty_store))
   = map (\<lambda>r. (row_id r, row_category r, row_order r)) (bookmarks work_three)"
  by (simp add: run_def eval_defs work_new_def)

subsection \<open>createBookmark on a bookmark without a category\<close>

text \<open>
  C2. \<^verbatim>\<open>createBookmark\<close> is to give the new bookmark the order one above the largest order in
  its category. For a bookmark without a category the parameter of the \<^verbatim>\<open>MAX\<close> query is
  \<^verbatim>\<open>null\<close>, the query selects nothing, and the order is 0 whatever the table holds: with one
  uncategorised bookmark of order 0 in the store, a second uncategorised bookmark is created
  with order 0 again, not 1.
\<close>

theorem createBookmark_uncategorised:
  "\<exists>r s'. createBookmark (js ''b'') example_new uncategorised_one = Inr (r, s')
     \<and> bm_order r = Some 0
     \<and> map row_category (bookmarks s') = [None, None]
     \<and> map row_order (bookmarks s') = [Some 0, Some 0]"
  by (simp add: eval_defs)

subsection \<open>updateBookmark with a patch that has no category\<close>

text \<open>
  C3. A patch without a category is to leave category and order of the bookmark, and the
  orders of all others, alone. \<^verbatim>\<open>updateBookmark\<close> normalises the absent category to the
  empty string, finds it different from "work", and treats the call as a move: patching
  only the title of the second of three bookmarks of "work" keeps its category, sets its
  order from 1 to 0 and the third bookmark's order from 2 to 1.
\<close>

theorem updateBookmark_title_only:
  "\<exists>r s'. updateBookmark (js ''b'') (no_patch\<lparr>patch_title := Some (js ''T'')\<rparr>) work_three
            = (Some r, s')
     \<and> map row_id (bookmarks s') = [js ''a'', js ''b'', js ''c'']
     \<and> map row_category (bookmarks s') = map row_category (bookmarks work_three)
     \<and> map row_order (bookmarks work_three) = [Some 0, Some 1, Some 2]
     \<and> map row_order (bookmarks s') = [Some 0, Some 0, Some 1]"
  by (simp add: eval_defs)

subsection \<open>deleteBookmark on a bookmark without a category\<close>

text \<open>
  C4. \<^verbatim>\<open>deleteBookmark\<close> is to close the gap the deleted bookmark leaves in its category.
  For a bookmark without a category the \<^verbatim>\<open>UPDATE\<close> compares the column with \<^verbatim>\<open>null\<close> and
  changes no row: of two uncategorised bookmarks with orders 0 and 1, deleting the first
  leaves the second with order 1.
\<close>

theorem deleteBookmark_uncategorised:
  "\<exists>r s'. deleteBookmark (js ''a'') uncategorised_two = (Some r, s')
     \<and> bm_id r = js ''a'' \<and> bm_order r = Some 0
     \<and> map row_id (bookmarks s') = [js ''b'']
     \<and> map row_category (bookmarks s') = [None]
     \<and> map row_order (bookmarks s') = [Some 1]"
  by (simp add: eval_defs)

subsection \<open>updateSettings\<close>

text \<open>
  C8. \<^verbatim>\<open>updateSettings\<close> is to reject a theme outside the six valid ones. The empty string
  is outside them, yet \<^verbatim>\<open>updateSettings({theme: ""})\<close> on the empty store returns normally
  and the table then holds the empty string as theme.
\<close>

theorem updateSettings_empty_theme:
  "\<exists>r s'. updateSettings \<lparr>theme = Some [], siteTitle = None, siteIcon = None\<rparr> empty_store
            = Inr (r, s')
     \<and> settings s' (js ''theme'') = Some []
     \<and> theme r = Some []
     \<and> [] \<notin> set validThemes"
  by (simp add: updateSettings_def truthy_def validThemes_def js_def upsert_setting_def
      getSettings_def empty_store_def)



subsection \<open>Identifiers that are not in the store\<close>

text \<open>
  C9. For an identifier that no row of \<^verbatim>\<open>bookmarks\<close> has, \<^verbatim>\<open>updateBookmark\<close> and
  \<^verbatim>\<open>deleteBookmark\<close> return \<^verbatim>\<open>null\<close> and the store is the one they were given.
\<close>

theorem absent_id_not_found:
  assumes "i \<notin> set (map row_id (bookmarks s))"
  shows "updateBookmark i data s = (None, s) \<and> deleteBookmark i s = (None, s)"
proof -
  have "select_by_id i (bookmarks s) = None"
    using assms by (auto simp: select_by_id_def find_None_iff)
  then show ?thesis by (simp add: updateBookmark_def deleteBookmark_def)
qed

theorem absent_id_not_found_witness:
  "js ''zz'' \<notin> set (map row_id (bookmarks work_three))
   \<and> updateBookmark (js ''zz'') (no_patch\<lparr>patch_title := Some (js ''T'')\<rparr>) work_three
       = (None, work_three)
   \<and> deleteBookmark (js ''zz'') work_three = (None, work_three)"
proof -
  have h: "js ''zz'' \<notin> set (map row_id (bookmarks work_three))"
    by (simp add: work_three_def example_row_def js_def)
  show ?thesis using h absent_id_not_found [OF h] by simp
qed

subsection \<open>The stable sort\<close>

lemma mset_insort_cmp: "mset (insort_cmp cmp x xs) = add_mset x (mset xs)"
  by (induction xs) auto

lemma mset_sort_cmp: "mset (sort_cmp cmp xs) = mset xs"
  unfolding sort_cmp_def by (induction xs) (auto simp: mset_insort_cmp)




subsection \<open>listBookmarks\<close>





lemma mset_listBookmarks: "mset (listBookmarks s) = mset (map row_to_record (bookmarks s))"
  by (simp add: listBookmarks_def Let_def mset_sort_cmp)

lemmas list_defs =
  listBookmarks_def select_category_order_def sort_cmp_def compareBookmarks_def
  order_or_zero_def row_to_record_def string_or_null_def normalizeCategory_def trim_def
  isWhiteSpace_def nullish_def js_def mixed_store_def empty_store_def example_row_def Let_def



subsection \<open>GET /api/bookmarks\<close>

lemma visible_records:
  "filter_mset (\<lambda>b. bm_visible b \<noteq> Some False) (mset (map row_to_record rows))
     = mset (map row_to_record (filter (\<lambda>r. row_visible r \<noteq> Some False) rows))"
  by (induction rows) (auto simp: row_to_record_def)

text \<open>
  C7. A GET request for the listing (not the \<^verbatim>\<open>action=parse\<close> scraper) without a valid
  token is answered with the listing without the bookmarks whose \<^verbatim>\<open>visible\<close> is false,
  which are the bookmarks of the rows whose \<^verbatim>\<open>visible\<close> column is not false; with a valid
  token it is answered with the whole listing, which holds every bookmark of the table.
\<close>

theorem handler_get_visibility:
  assumes "req_method req = GET" and "req_action req \<noteq> Some (js ''parse'')"
  shows "handler (None :: 'u option) req s
           = Json 200 (filter (\<lambda>b. bm_visible b \<noteq> Some False) (listBookmarks s))
       \<and> mset (filter (\<lambda>b. bm_visible b \<noteq> Some False) (listBookmarks s))
           = mset (map row_to_record (filter (\<lambda>r. row_visible r \<noteq> Some False) (bookmarks s)))
       \<and> handler (Some (u :: 'u)) req s = Json 200 (listBookmarks s)
       \<and> mset (listBookmarks s) = mset (map row_to_record (bookmarks s))"
proof -
  have "mset (filter (\<lambda>b. bm_visible b \<noteq> Some False) (listBookmarks s))
      = filter_mset (\<lambda>b. bm_visible b \<noteq> Some False) (mset (map row_to_record (bookmarks s)))"
    by (metis mset_listBookmarks mset_filter)
  also have "\<dots> = mset (map row_to_record (filter (\<lambda>r. row_visible r \<noteq> Some False) (bookmarks s)))"
    by (rule visible_records)
  finally show ?thesis
    using assms by (simp add: handler_def handleOptions_def Let_def mset_listBookmarks)
qed

theorem handler_get_visibility_witness:
  "handler (None :: unit option) \<lparr>req_method = GET, req_action = None\<rparr> mixed_store
     = Json 200 (filter (\<lambda>b. bm_visible b \<noteq> Some False) (listBookmarks mixed_store))
   \<and> map bm_id (filter (\<lambda>b. bm_visible b \<noteq> Some False) (listBookmarks mixed_store))
       = [js ''d'', js ''a'', js ''c'']
   \<and> handler (Some ()) \<lparr>req_method = GET, req_action = None\<rparr> mixed_store
       = Json 200 (listBookmarks mixed_store)
   \<and> map bm_id (listBookmarks mixed_store) = [js ''b'', js ''d'', js ''a'', js ''c'']"
  using handler_get_visibility [of "\<lparr>req_method = GET, req_action = None\<rparr>" mixed_store "()"]
  by (simp add: list_defs)

subsection \<open>reorderBookmarks\<close>

lemma set_order_single:
  "set_order i k [r] = [if row_id r = i then r\<lparr>row_order := Some k\<rparr> else r]"
  by (simp add: set_order_def)










subsection \<open>Contiguous orders\<close>


lemma zero_to_mset_cong: "mset os = mset os' \<Longrightarrow> zero_to os \<longleftrightarrow> zero_to os'"
  unfolding zero_to_def by (metis size_mset)




subsection \<open>trim\<close>


lemma trim_Nil [simp]: "trim [] = []"
  by (simp add: trim_def)

lemma normalizeCategory_trimmed:
  "normalizeCategory x = trim (nullish x [])"
  by (simp add: normalizeCategory_def Let_def)




lemma or_null_category_of:
  "normalised r \<Longrightarrow> or_null (category_of r) = row_category r"
  by (auto simp: normalised_def category_of_def normalizeCategory_trimmed js_of_sql_def nullish_def or_null_def
      split: option.splits)

lemma or_null_eq_Some: "or_null x = Some c \<longleftrightarrow> x = c \<and> c \<noteq> []"
  by (auto simp: or_null_def)

subsection \<open>Rows\<close>



lemma orders_in_append [simp]: "orders_in c (xs @ ys) = orders_in c xs @ orders_in c ys"
  by (simp add: orders_in_def)


lemma orders_in_Nil [simp]: "orders_in c [] = []"
  by (simp add: orders_in_def)













subsection \<open>The invariant under createBookmark\<close>


subsection \<open>The invariant under deleteBookmark\<close>


subsection \<open>The invariant under updateBookmark\<close>




subsection \<open>The invariant under sequences of calls\<close>










end
